theory Spec2Isabelle
  imports Main "HOL-Library.Word"
begin

section \<open>The write-ahead state of go-evm (src/state/was.go)\<close>

text \<open>
  The file \<^verbatim>\<open>was.go\<close> defines one struct, \<^verbatim>\<open>WriteAheadState\<close>, and the methods
  \<^verbatim>\<open>Reset\<close>, \<^verbatim>\<open>ApplyTransaction\<close> and \<^verbatim>\<open>Commit\<close> with the helpers \<^verbatim>\<open>writeRoot\<close>,
  \<^verbatim>\<open>writeHead\<close>, \<^verbatim>\<open>writeTransactions\<close> and \<^verbatim>\<open>writeReceipts\<close>. Everything else it
  calls belongs to go-ethereum (state database, virtual machine, signer, RLP codec,
  key-value store). Those collaborators are not part of the repository: they are taken
  as parameters, collected in the record \<open>env\<close>, and every theorem holds for all of them.
  Mutation is state passing: a method takes the struct and returns the updated struct.
  Calls to the logger have no effect on the struct and are left out.
\<close>

subsection \<open>Values of go-ethereum's common and core/types packages\<close>

type_synonym bytes = "8 word list"

text \<open>\<^verbatim>\<open>common.Hash\<close> is \<^verbatim>\<open>[32]byte\<close>, \<^verbatim>\<open>common.Address\<close> is \<^verbatim>\<open>[20]byte\<close>,
  \<^verbatim>\<open>types.Bloom\<close> is \<^verbatim>\<open>[256]byte\<close>; the zero value of each is the word 0.\<close>

type_synonym hash = "256 word"
type_synonym address = "160 word"
type_synonym bloom = "2048 word"

text \<open>\<^verbatim>\<open>h.Bytes()\<close>: the 32 bytes of a hash, most significant first.\<close>

definition hash_bytes :: "hash \<Rightarrow> bytes" where
  "hash_bytes h = map (\<lambda>i. ucast (drop_bit (8 * (31 - i)) h)) [0..<32]"

text \<open>A non-nil Go \<^verbatim>\<open>error\<close>, identified by its message; \<open>None\<close> is \<^verbatim>\<open>nil\<close>.\<close>

datatype error = Error string

text \<open>\<^verbatim>\<open>types.Message\<close>, what \<^verbatim>\<open>tx.AsMessage(signer)\<close> returns. \<open>To = None\<close> is the nil
  recipient of a contract creation.\<close>

record message =
  From :: address
  To :: "address option"
  Gas :: "64 word"
  GasPrice :: int
  MsgNonce :: "64 word"
  Value :: int
  Data :: bytes
  CheckNonce :: bool

text \<open>The fields of \<^verbatim>\<open>vm.Context\<close> that \<^verbatim>\<open>ApplyTransaction\<close> sets. \<^verbatim>\<open>CanTransfer\<close> and
  \<^verbatim>\<open>Transfer\<close> are always the library's own \<^verbatim>\<open>core.CanTransfer\<close> and \<^verbatim>\<open>core.Transfer\<close>.\<close>

record vmContext =
  GetHash :: "64 word \<Rightarrow> hash"
  Origin :: address
  GasLimit :: "64 word"
  CtxGasPrice :: int
  BlockNumber :: int

text \<open>\<^verbatim>\<open>types.Receipt\<close>, with the logs of type \<open>'log\<close>.\<close>

record 'log receipt =
  PostState :: bytes
  Status :: "64 word"
  CumulativeGasUsed :: "64 word"
  Bloom :: bloom
  Logs :: "'log list"
  TxHash :: hash
  ContractAddress :: address
  GasUsed :: "64 word"

definition ReceiptStatusFailed :: "64 word" where
  "ReceiptStatusFailed = 0"

definition ReceiptStatusSuccessful :: "64 word" where
  "ReceiptStatusSuccessful = 1"

text \<open>\<^verbatim>\<open>types.NewReceipt(root, failed, cumulativeGasUsed)\<close>: every other field has its
  zero value.\<close>

definition NewReceipt :: "bytes \<Rightarrow> bool \<Rightarrow> 64 word \<Rightarrow> 'log receipt" where
  "NewReceipt root failed cumulativeGasUsed =
     \<lparr>PostState = root,
      Status = (if failed then ReceiptStatusFailed else ReceiptStatusSuccessful),
      CumulativeGasUsed = cumulativeGasUsed,
      Bloom = 0, Logs = [], TxHash = 0, ContractAddress = 0, GasUsed = 0\<rparr>"

subsection \<open>The struct\<close>

text \<open>
  \<^verbatim>\<open>WriteAheadState\<close>, field by field (the logger apart). The type variables stand for
  the library types the file only passes on: \<open>'db\<close> the key-value store behind
  \<^verbatim>\<open>ethdb.Database\<close>, \<open>'st\<close> the \<^verbatim>\<open>StateDB\<close> with its trie database, \<open>'sg\<close>, \<open>'cc\<close>,
  \<open>'vc\<close> the signer and the two configurations, \<open>'tx\<close> a transaction, \<open>'log\<close> a log.
  \<^verbatim>\<open>txIndex\<close> is a Go \<^verbatim>\<open>int\<close> (64 bits, \<^verbatim>\<open>++\<close> wraps). \<^verbatim>\<open>totalUsedGas\<close> is a
  \<^verbatim>\<open>*big.Int\<close> and \<^verbatim>\<open>gp\<close> a \<^verbatim>\<open>*core.GasPool\<close> (a \<^verbatim>\<open>uint64\<close>); both are nil (\<open>None\<close>)
  until the first \<^verbatim>\<open>Reset\<close>.
\<close>

record ('db, 'st, 'sg, 'cc, 'vc, 'tx, 'log) WriteAheadState =
  db :: 'db
  ethState :: 'st
  signer :: 'sg
  chainConfig :: 'cc
  vmConfig :: 'vc
  gasLimit :: "64 word"
  txIndex :: "64 word"
  transactions :: "'tx list"
  receipts :: "'log receipt list"
  allLogs :: "'log list"
  totalUsedGas :: "int option"
  gp :: "64 word option"

subsection \<open>The collaborators\<close>

text \<open>
  What the file calls in go-ethereum, one field per function, each with the state it
  reads as an argument and the state it changes in its result.
  \<^item> \<open>AsMessage tx signer\<close>: \<^verbatim>\<open>tx.AsMessage(signer)\<close>, the message or the error.
  \<^item> \<open>Hash tx\<close>, \<open>Nonce tx\<close>: \<^verbatim>\<open>tx.Hash()\<close>, \<^verbatim>\<open>tx.Nonce()\<close>.
  \<^item> \<open>emptyTransaction\<close>: the zero value \<^verbatim>\<open>ethTypes.Transaction{}\<close>.
  \<^item> \<open>StateNew db root\<close>: \<^verbatim>\<open>ethState.New(root, ethState.NewDatabase(db))\<close>.
  \<^item> \<open>StateReset st root\<close>: \<^verbatim>\<open>ethState.Reset(root)\<close>.
  \<^item> \<open>Prepare st thash bhash ti\<close>: \<^verbatim>\<open>ethState.Prepare(thash, bhash, ti)\<close>.
  \<^item> \<open>ApplyMessage ctx chainConfig vmConfig msg st gp\<close>: \<^verbatim>\<open>vm.NewEVM\<close> on the context,
    the state and the configurations, then \<^verbatim>\<open>core.ApplyMessage(vmenv, msg, gp)\<close>; the
    result is the four values returned (output, gas, failed, error), the state and the
    gas pool after the call.
  \<^item> \<open>IntermediateRoot st deleteEmptyObjects\<close>, \<open>GetLogs st thash\<close>: the methods of
    \<^verbatim>\<open>StateDB\<close>.
  \<^item> \<open>CreateAddress origin nonce\<close>: \<^verbatim>\<open>crypto.CreateAddress\<close>.
  \<^item> \<open>CreateBloom rs\<close>: \<^verbatim>\<open>ethTypes.CreateBloom\<close>.
  \<^item> \<open>StateCommit st deleteEmptyObjects\<close>: \<^verbatim>\<open>ethState.Commit\<close>, the root, the error and
    the state after it.
  \<^item> \<open>TrieDBCommit st db root report\<close>: \<^verbatim>\<open>ethState.Database().TrieDB().Commit\<close>, which
    flushes trie nodes into the key-value store the state database was built on, the
    same store as the field \<^verbatim>\<open>db\<close>.
  \<^item> \<open>Put db key value\<close>: \<^verbatim>\<open>db.Put\<close>.
  \<^item> \<open>BatchPut db puts key value\<close>: \<^verbatim>\<open>batch.Put\<close> on the batch that \<^verbatim>\<open>db.NewBatch()\<close>
    gave and that holds \<open>puts\<close> so far; \<open>BatchWrite db puts\<close>: \<^verbatim>\<open>batch.Write()\<close>.
  \<^item> \<open>EncodeTransaction\<close>, \<open>EncodeReceiptForStorage\<close>: \<^verbatim>\<open>rlp.EncodeToBytes\<close> on a
    transaction and on a \<^verbatim>\<open>ReceiptForStorage\<close>.
  \<^item> \<open>rootKey\<close>, \<open>headTxKey\<close>, \<open>receiptsPrefix\<close>: variables of package \<^verbatim>\<open>state\<close>
    declared in another file.
\<close>

record ('db, 'st, 'sg, 'cc, 'vc, 'tx, 'log) env =
  AsMessage :: "'tx \<Rightarrow> 'sg \<Rightarrow> error + message"
  Hash :: "'tx \<Rightarrow> hash"
  Nonce :: "'tx \<Rightarrow> 64 word"
  emptyTransaction :: 'tx
  StateNew :: "'db \<Rightarrow> hash \<Rightarrow> error + 'st"
  StateReset :: "'st \<Rightarrow> hash \<Rightarrow> error option \<times> 'st"
  Prepare :: "'st \<Rightarrow> hash \<Rightarrow> hash \<Rightarrow> 64 word \<Rightarrow> 'st"
  ApplyMessage :: "vmContext \<Rightarrow> 'cc \<Rightarrow> 'vc \<Rightarrow> message \<Rightarrow> 'st \<Rightarrow> 64 word option
     \<Rightarrow> (bytes \<times> 64 word \<times> bool \<times> error option) \<times> 'st \<times> 64 word option"
  IntermediateRoot :: "'st \<Rightarrow> bool \<Rightarrow> hash \<times> 'st"
  GetLogs :: "'st \<Rightarrow> hash \<Rightarrow> 'log list"
  CreateAddress :: "address \<Rightarrow> 64 word \<Rightarrow> address"
  CreateBloom :: "'log receipt list \<Rightarrow> bloom"
  StateCommit :: "'st \<Rightarrow> bool \<Rightarrow> hash \<times> error option \<times> 'st"
  TrieDBCommit :: "'st \<Rightarrow> 'db \<Rightarrow> hash \<Rightarrow> bool \<Rightarrow> error option \<times> 'st \<times> 'db"
  Put :: "'db \<Rightarrow> bytes \<Rightarrow> bytes \<Rightarrow> error option \<times> 'db"
  BatchPut :: "'db \<Rightarrow> (bytes \<times> bytes) list \<Rightarrow> bytes \<Rightarrow> bytes \<Rightarrow> error option"
  BatchWrite :: "'db \<Rightarrow> (bytes \<times> bytes) list \<Rightarrow> error option \<times> 'db"
  EncodeTransaction :: "'tx \<Rightarrow> error + bytes"
  EncodeReceiptForStorage :: "'log receipt \<Rightarrow> error + bytes"
  rootKey :: bytes
  headTxKey :: bytes
  receiptsPrefix :: bytes

subsection \<open>NewWriteAheadState\<close>

text \<open>The constructor sets the store, the state and the configuration; the counters and
  the buffers keep their zero values, so \<^verbatim>\<open>totalUsedGas\<close> and \<^verbatim>\<open>gp\<close> are nil.\<close>

definition NewWriteAheadState ::
  "('db, 'st, 'sg, 'cc, 'vc, 'tx, 'log) env \<Rightarrow> 'db \<Rightarrow> hash \<Rightarrow> 'sg \<Rightarrow> 'cc \<Rightarrow> 'vc \<Rightarrow> 64 word
     \<Rightarrow> error + ('db, 'st, 'sg, 'cc, 'vc, 'tx, 'log) WriteAheadState" where
  "NewWriteAheadState e d root sg cc vc limit =
     (case StateNew e d root of
        Inl err \<Rightarrow> Inl err
      | Inr st \<Rightarrow>
          Inr \<lparr>db = d, ethState = st, signer = sg, chainConfig = cc, vmConfig = vc,
               gasLimit = limit, txIndex = 0, transactions = [], receipts = [], allLogs = [],
               totalUsedGas = None, gp = None\<rparr>)"

subsection \<open>Reset\<close>

text \<open>
  \<^verbatim>\<open>Reset\<close> returns the error of \<^verbatim>\<open>ethState.Reset\<close> before it touches any field. The
  pool \<^verbatim>\<open>new(core.GasPool).AddGas(was.gasLimit)\<close> starts at 0, so the sum is the gas
  limit and the library's overflow check cannot fire.
\<close>

definition Reset ::
  "('db, 'st, 'sg, 'cc, 'vc, 'tx, 'log) env \<Rightarrow> ('db, 'st, 'sg, 'cc, 'vc, 'tx, 'log) WriteAheadState
     \<Rightarrow> hash \<Rightarrow> error option \<times> ('db, 'st, 'sg, 'cc, 'vc, 'tx, 'log) WriteAheadState" where
  "Reset e was root =
     (case StateReset e (ethState was) root of
        (Some err, st) \<Rightarrow> (Some err, was\<lparr>ethState := st\<rparr>)
      | (None, st) \<Rightarrow>
          (None, was\<lparr>ethState := st,
                     txIndex := 0,
                     transactions := [],
                     receipts := [],
                     allLogs := [],
                     totalUsedGas := Some 0,
                     gp := Some (0 + gasLimit was)\<rparr>))"

subsection \<open>ApplyTransaction\<close>

text \<open>
  A call either returns (the Go \<^verbatim>\<open>error\<close>, \<open>None\<close> for nil, and the struct as the call
  left it) or panics: \<^verbatim>\<open>was.totalUsedGas.Add\<close> dereferences \<^verbatim>\<open>totalUsedGas\<close>, which is
  nil on a struct that was never \<^verbatim>\<open>Reset\<close>.
\<close>

datatype 'a outcome = Panic | Returned "error option" 'a

text \<open>
  The method's parameter \<^verbatim>\<open>txIndex\<close> (here \<open>ti\<close>) is only handed to
  \<^verbatim>\<open>ethState.Prepare\<close>; the field \<^verbatim>\<open>was.txIndex\<close> is a different variable. The two
  early returns leave every field but \<^verbatim>\<open>ethState\<close> and the pool behind \<^verbatim>\<open>gp\<close> as it
  was. \<^verbatim>\<open>was.totalUsedGas.Uint64()\<close> is the low 64 bits of the sum.
\<close>

definition ApplyTransaction ::
  "('db, 'st, 'sg, 'cc, 'vc, 'tx, 'log) env \<Rightarrow> ('db, 'st, 'sg, 'cc, 'vc, 'tx, 'log) WriteAheadState
     \<Rightarrow> 'tx \<Rightarrow> 64 word \<Rightarrow> hash \<Rightarrow> ('db, 'st, 'sg, 'cc, 'vc, 'tx, 'log) WriteAheadState outcome" where
  "ApplyTransaction e was tx ti blockHash =
     (case AsMessage e tx (signer was) of
        Inl err \<Rightarrow> Returned (Some err) was
      | Inr msg \<Rightarrow>
          let ctx = \<lparr>GetHash = (\<lambda>_. blockHash), Origin = From msg, GasLimit = Gas msg,
                     CtxGasPrice = GasPrice msg, BlockNumber = 0\<rparr>;
              st1 = Prepare e (ethState was) (Hash e tx) blockHash ti
          in case ApplyMessage e ctx (chainConfig was) (vmConfig was) msg st1 (gp was) of
               ((ret, gas, failed, Some err), st2, gp2) \<Rightarrow>
                 Returned (Some err) (was\<lparr>ethState := st2, gp := gp2\<rparr>)
             | ((ret, gas, failed, None), st2, gp2) \<Rightarrow>
                 (case totalUsedGas was of
                    None \<Rightarrow> Panic
                  | Some used \<Rightarrow>
                      let used' = used + uint gas;
                          (root, st3) = IntermediateRoot e st2 True;
                          receipt0 = NewReceipt (hash_bytes root) failed (word_of_int used');
                          receipt1 = receipt0\<lparr>TxHash := Hash e tx, GasUsed := gas\<rparr>;
                          receipt2 = (if To msg = None
                                      then receipt1\<lparr>ContractAddress :=
                                             CreateAddress e (Origin ctx) (Nonce e tx)\<rparr>
                                      else receipt1);
                          receipt3 = receipt2\<lparr>Logs := GetLogs e st3 (Hash e tx)\<rparr>;
                          receipt = receipt3\<lparr>Bloom := CreateBloom e [receipt3]\<rparr>
                      in Returned None
                           (was\<lparr>ethState := st3,
                                gp := gp2,
                                totalUsedGas := Some used',
                                txIndex := txIndex was + 1,
                                transactions := transactions was @ [tx],
                                receipts := receipts was @ [receipt],
                                allLogs := allLogs was @ Logs receipt\<rparr>)))"

text \<open>
  \<open>execute\<close> names the call of the engine inside \<^verbatim>\<open>ApplyTransaction\<close>: the context built
  from the message, \<^verbatim>\<open>ethState.Prepare\<close>, \<^verbatim>\<open>vm.NewEVM\<close> and \<^verbatim>\<open>core.ApplyMessage\<close> on
  the pool of the struct. A transaction that reverts in its script is a result with the
  flag \<open>failed\<close> set and no error.
\<close>

definition execute ::
  "('db, 'st, 'sg, 'cc, 'vc, 'tx, 'log) env \<Rightarrow> ('db, 'st, 'sg, 'cc, 'vc, 'tx, 'log) WriteAheadState
     \<Rightarrow> 'tx \<Rightarrow> 64 word \<Rightarrow> hash \<Rightarrow> message
     \<Rightarrow> (bytes \<times> 64 word \<times> bool \<times> error option) \<times> 'st \<times> 64 word option" where
  "execute e was tx ti blockHash msg =
     ApplyMessage e
       \<lparr>GetHash = (\<lambda>_. blockHash), Origin = From msg, GasLimit = Gas msg,
        CtxGasPrice = GasPrice msg, BlockNumber = 0\<rparr>
       (chainConfig was) (vmConfig was) msg
       (Prepare e (ethState was) (Hash e tx) blockHash ti) (gp was)"

subsection \<open>The four writes\<close>

definition writeRoot ::
  "('db, 'st, 'sg, 'cc, 'vc, 'tx, 'log) env \<Rightarrow> ('db, 'st, 'sg, 'cc, 'vc, 'tx, 'log) WriteAheadState
     \<Rightarrow> hash \<Rightarrow> error option \<times> ('db, 'st, 'sg, 'cc, 'vc, 'tx, 'log) WriteAheadState" where
  "writeRoot e was root =
     (case Put e (db was) (rootKey e) (hash_bytes root) of
        (err, d) \<Rightarrow> (err, was\<lparr>db := d\<rparr>))"

definition writeHead ::
  "('db, 'st, 'sg, 'cc, 'vc, 'tx, 'log) env \<Rightarrow> ('db, 'st, 'sg, 'cc, 'vc, 'tx, 'log) WriteAheadState
     \<Rightarrow> error option \<times> ('db, 'st, 'sg, 'cc, 'vc, 'tx, 'log) WriteAheadState" where
  "writeHead e was =
     (let head = (if length (transactions was) > 0
                  then transactions was ! (length (transactions was) - 1)
                  else emptyTransaction e)
      in case Put e (db was) (headTxKey e) (hash_bytes (Hash e head)) of
           (err, d) \<Rightarrow> (err, was\<lparr>db := d\<rparr>))"

text \<open>The loop of \<^verbatim>\<open>writeTransactions\<close>: \<open>d\<close> is the store the batch was made on, \<open>batch\<close>
  the puts it holds; the first encoding or put that fails ends the loop with its error.\<close>

fun putTransactions ::
  "('db, 'st, 'sg, 'cc, 'vc, 'tx, 'log) env \<Rightarrow> 'db \<Rightarrow> (bytes \<times> bytes) list \<Rightarrow> 'tx list
     \<Rightarrow> error + (bytes \<times> bytes) list" where
  "putTransactions e d batch [] = Inr batch"
| "putTransactions e d batch (tx # txs) =
     (case EncodeTransaction e tx of
        Inl err \<Rightarrow> Inl err
      | Inr data \<Rightarrow>
          (case BatchPut e d batch (hash_bytes (Hash e tx)) data of
             Some err \<Rightarrow> Inl err
           | None \<Rightarrow> putTransactions e d (batch @ [(hash_bytes (Hash e tx), data)]) txs))"

definition writeTransactions ::
  "('db, 'st, 'sg, 'cc, 'vc, 'tx, 'log) env \<Rightarrow> ('db, 'st, 'sg, 'cc, 'vc, 'tx, 'log) WriteAheadState
     \<Rightarrow> error option \<times> ('db, 'st, 'sg, 'cc, 'vc, 'tx, 'log) WriteAheadState" where
  "writeTransactions e was =
     (case putTransactions e (db was) [] (transactions was) of
        Inl err \<Rightarrow> (Some err, was)
      | Inr batch \<Rightarrow>
          (case BatchWrite e (db was) batch of
             (err, d) \<Rightarrow> (err, was\<lparr>db := d\<rparr>)))"

text \<open>The loop of \<^verbatim>\<open>writeReceipts\<close>; the key is \<^verbatim>\<open>receiptsPrefix\<close> followed by the bytes
  of the receipt's transaction hash.\<close>

fun putReceipts ::
  "('db, 'st, 'sg, 'cc, 'vc, 'tx, 'log) env \<Rightarrow> 'db \<Rightarrow> (bytes \<times> bytes) list \<Rightarrow> 'log receipt list
     \<Rightarrow> error + (bytes \<times> bytes) list" where
  "putReceipts e d batch [] = Inr batch"
| "putReceipts e d batch (receipt # rs) =
     (case EncodeReceiptForStorage e receipt of
        Inl err \<Rightarrow> Inl err
      | Inr data \<Rightarrow>
          (case BatchPut e d batch (receiptsPrefix e @ hash_bytes (TxHash receipt)) data of
             Some err \<Rightarrow> Inl err
           | None \<Rightarrow>
               putReceipts e d
                 (batch @ [(receiptsPrefix e @ hash_bytes (TxHash receipt), data)]) rs))"

definition writeReceipts ::
  "('db, 'st, 'sg, 'cc, 'vc, 'tx, 'log) env \<Rightarrow> ('db, 'st, 'sg, 'cc, 'vc, 'tx, 'log) WriteAheadState
     \<Rightarrow> error option \<times> ('db, 'st, 'sg, 'cc, 'vc, 'tx, 'log) WriteAheadState" where
  "writeReceipts e was =
     (case putReceipts e (db was) [] (receipts was) of
        Inl err \<Rightarrow> (Some err, was)
      | Inr batch \<Rightarrow>
          (case BatchWrite e (db was) batch of
             (err, d) \<Rightarrow> (err, was\<lparr>db := d\<rparr>)))"

subsection \<open>Commit\<close>

text \<open>The result is the pair Go returns, \<^verbatim>\<open>(common.Hash, error)\<close>, and the struct after
  the call. Every error branch returns \<^verbatim>\<open>common.Hash{}\<close>, the hash 0.\<close>

definition Commit ::
  "('db, 'st, 'sg, 'cc, 'vc, 'tx, 'log) env \<Rightarrow> ('db, 'st, 'sg, 'cc, 'vc, 'tx, 'log) WriteAheadState
     \<Rightarrow> (hash \<times> error option) \<times> ('db, 'st, 'sg, 'cc, 'vc, 'tx, 'log) WriteAheadState" where
  "Commit e was =
     (case StateCommit e (ethState was) True of
        (root, Some err, st1) \<Rightarrow> ((0, Some err), was\<lparr>ethState := st1\<rparr>)
      | (root, None, st1) \<Rightarrow>
          (case TrieDBCommit e st1 (db was) root True of
             (Some err, st2, d2) \<Rightarrow> ((0, Some err), was\<lparr>ethState := st2, db := d2\<rparr>)
           | (None, st2, d2) \<Rightarrow>
               (case writeRoot e (was\<lparr>ethState := st2, db := d2\<rparr>) root of
                  (Some err, was3) \<Rightarrow> ((0, Some err), was3)
                | (None, was3) \<Rightarrow>
                    (case writeHead e was3 of
                       (Some err, was4) \<Rightarrow> ((0, Some err), was4)
                     | (None, was4) \<Rightarrow>
                         (case writeTransactions e was4 of
                            (Some err, was5) \<Rightarrow> ((0, Some err), was5)
                          | (None, was5) \<Rightarrow>
                              (case writeReceipts e was5 of
                                 (Some err, was6) \<Rightarrow> ((0, Some err), was6)
                               | (None, was6) \<Rightarrow> ((root, None), was6)))))))"

subsection \<open>An epoch: a sequence of calls on one struct\<close>

text \<open>
  The caller of the file applies transactions one after the other to the same struct.
  \<open>applyAll\<close> runs such a sequence of calls \<open>(tx, ti, blockHash)\<close> and collects what each
  call returned; it is \<open>None\<close> when a call panics. \<open>applied\<close> keeps the transactions of
  the calls that returned nil.
\<close>

fun applyAll ::
  "('db, 'st, 'sg, 'cc, 'vc, 'tx, 'log) env \<Rightarrow> ('db, 'st, 'sg, 'cc, 'vc, 'tx, 'log) WriteAheadState
     \<Rightarrow> ('tx \<times> 64 word \<times> hash) list
     \<Rightarrow> (error option list \<times> ('db, 'st, 'sg, 'cc, 'vc, 'tx, 'log) WriteAheadState) option" where
  "applyAll e was [] = Some ([], was)"
| "applyAll e was ((tx, ti, blockHash) # calls) =
     (case ApplyTransaction e was tx ti blockHash of
        Panic \<Rightarrow> None
      | Returned err was' \<Rightarrow>
          (case applyAll e was' calls of
             None \<Rightarrow> None
           | Some (errs, was'') \<Rightarrow> Some (err # errs, was'')))"

fun applied :: "('tx \<times> 64 word \<times> hash) list \<Rightarrow> error option list \<Rightarrow> 'tx list" where
  "applied ((tx, ti, blockHash) # calls) (err # errs) =
     (if err = None then tx # applied calls errs else applied calls errs)"
| "applied _ _ = []"

subsection \<open>The commit pipeline as the specification words it\<close>

text \<open>
  The specification describes \<^verbatim>\<open>Commit\<close> as stages run in order, where the first stage
  that fails ends the run: state finalize, trie flush, and the writes of the root
  pointer, the head pointer, the transactions and the receipts. \<open>runStage\<close> is one stage
  on the pair of the root found so far and the struct; \<open>pipeline\<close> runs a list of stages
  and returns the stages that succeeded, the error of the stage that failed (if one
  did) and the pair as the last stage run left it.
\<close>

datatype stage = StateFinalize | TrieFlush | RootWrite | HeadWrite | TxWrite | ReceiptWrite

fun runStage ::
  "('db, 'st, 'sg, 'cc, 'vc, 'tx, 'log) env \<Rightarrow> stage
     \<Rightarrow> hash \<times> ('db, 'st, 'sg, 'cc, 'vc, 'tx, 'log) WriteAheadState
     \<Rightarrow> error option \<times> hash \<times> ('db, 'st, 'sg, 'cc, 'vc, 'tx, 'log) WriteAheadState" where
  "runStage e StateFinalize (root, was) =
     (case StateCommit e (ethState was) True of
        (root', err, st) \<Rightarrow> (err, root', was\<lparr>ethState := st\<rparr>))"
| "runStage e TrieFlush (root, was) =
     (case TrieDBCommit e (ethState was) (db was) root True of
        (err, st, d) \<Rightarrow> (err, root, was\<lparr>ethState := st, db := d\<rparr>))"
| "runStage e RootWrite (root, was) =
     (case writeRoot e was root of (err, was') \<Rightarrow> (err, root, was'))"
| "runStage e HeadWrite (root, was) =
     (case writeHead e was of (err, was') \<Rightarrow> (err, root, was'))"
| "runStage e TxWrite (root, was) =
     (case writeTransactions e was of (err, was') \<Rightarrow> (err, root, was'))"
| "runStage e ReceiptWrite (root, was) =
     (case writeReceipts e was of (err, was') \<Rightarrow> (err, root, was'))"

fun pipeline ::
  "('db, 'st, 'sg, 'cc, 'vc, 'tx, 'log) env \<Rightarrow> stage list
     \<Rightarrow> hash \<times> ('db, 'st, 'sg, 'cc, 'vc, 'tx, 'log) WriteAheadState
     \<Rightarrow> stage list \<times> error option \<times> hash \<times> ('db, 'st, 'sg, 'cc, 'vc, 'tx, 'log) WriteAheadState"
  where
  "pipeline e [] rw = ([], None, rw)"
| "pipeline e (g # gs) rw =
     (case runStage e g rw of
        (Some err, rw') \<Rightarrow> ([], Some err, rw')
      | (None, rw') \<Rightarrow>
          (case pipeline e gs rw' of
             (passed, err, rw'') \<Rightarrow> (g # passed, err, rw'')))"

definition commitStages :: "stage list" where
  "commitStages = [StateFinalize, TrieFlush, RootWrite, HeadWrite, TxWrite, ReceiptWrite]"

subsection \<open>A small instance of the collaborators\<close>

text \<open>
  An instance to run the definitions on. A transaction is a number: its hash, its nonce
  and its sender are that number, transaction 0 has no valid signature, an even one
  creates a contract, and transaction 3 reverts. Every execution uses 21000 gas and fails
  with an error when the pool holds less. The state is a counter of executions; the
  store is the list of the pairs written to it, in order, and refuses an empty key; no
  trie has root 0.
\<close>

definition demoEnv :: "((bytes \<times> bytes) list, nat, unit, unit, unit, nat, nat) env" where
  "demoEnv =
     \<lparr>AsMessage = (\<lambda>tx sg.
        if tx = 0 then Inl (Error ''invalid sender'')
        else Inr \<lparr>From = of_nat tx, To = (if even tx then None else Some 1), Gas = 21000,
                  GasPrice = 1, MsgNonce = of_nat tx, Value = 0, Data = [],
                  CheckNonce = True\<rparr>),
      Hash = of_nat,
      Nonce = of_nat,
      emptyTransaction = 0,
      StateNew = (\<lambda>d root. if root = 0 then Inl (Error ''missing trie node'') else Inr 0),
      StateReset = (\<lambda>st root.
        if root = 0 then (Some (Error ''missing trie node''), st) else (None, 0)),
      Prepare = (\<lambda>st thash bhash ti. st),
      ApplyMessage = (\<lambda>ctx cc vc msg st pool.
        case pool of
          None \<Rightarrow> (([], 0, False, Some (Error ''no gas pool'')), st, pool)
        | Some g \<Rightarrow>
            if g < Gas msg then (([], 0, False, Some (Error ''gas limit reached'')), st, pool)
            else (([], 21000, MsgNonce msg = 3, None), Suc st, Some (g - 21000))),
      IntermediateRoot = (\<lambda>st deleteEmptyObjects. (of_nat st, st)),
      GetLogs = (\<lambda>st thash. [st]),
      CreateAddress = (\<lambda>origin nonce. origin + ucast nonce),
      CreateBloom = (\<lambda>rs. 0),
      StateCommit = (\<lambda>st deleteEmptyObjects. (of_nat st, None, st)),
      TrieDBCommit = (\<lambda>st d root report. (None, st, d @ [([0], hash_bytes root)])),
      Put = (\<lambda>d key val. if key = [] then (Some (Error ''empty key''), d)
                          else (None, d @ [(key, val)])),
      BatchPut = (\<lambda>d batch key val. None),
      BatchWrite = (\<lambda>d batch. (None, d @ batch)),
      EncodeTransaction = (\<lambda>tx. Inr [of_nat tx]),
      EncodeReceiptForStorage = (\<lambda>r. Inr [ucast (Status r)]),
      rootKey = [1],
      headTxKey = [2],
      receiptsPrefix = [3]\<rparr>"

text \<open>The struct the constructor builds on an empty store, with a gas limit of 50000.\<close>

definition demoFresh ::
  "((bytes \<times> bytes) list, nat, unit, unit, unit, nat, nat) WriteAheadState" where
  "demoFresh =
     \<lparr>db = [], ethState = 0, signer = (), chainConfig = (), vmConfig = (),
      gasLimit = 50000, txIndex = 0, transactions = [], receipts = [], allLogs = [],
      totalUsedGas = None, gp = None\<rparr>"

text \<open>The same struct after \<^verbatim>\<open>Reset\<close> on root 1, and four calls on it: transaction 2
  creates a contract, 0 has no valid signature, 3 reverts, and 5 finds 8000 gas left in
  the pool.\<close>

definition demoReset ::
  "((bytes \<times> bytes) list, nat, unit, unit, unit, nat, nat) WriteAheadState" where
  "demoReset =
     \<lparr>db = [], ethState = 0, signer = (), chainConfig = (), vmConfig = (),
      gasLimit = 50000, txIndex = 0, transactions = [], receipts = [], allLogs = [],
      totalUsedGas = Some 0, gp = Some 50000\<rparr>"

definition demoCalls :: "(nat \<times> 64 word \<times> hash) list" where
  "demoCalls = [(2, 0, 7), (0, 1, 7), (3, 1, 7), (5, 2, 7)]"

definition demoErrs :: "error option list" where
  "demoErrs =
     [None, Some (Error ''invalid sender''), None, Some (Error ''gas limit reached'')]"

definition demoReceipt2 :: "nat receipt" where
  "demoReceipt2 =
     \<lparr>PostState = hash_bytes 1, Status = 1, CumulativeGasUsed = 21000, Bloom = 0,
      Logs = [1], TxHash = 2, ContractAddress = 4, GasUsed = 21000\<rparr>"

definition demoReceipt3 :: "nat receipt" where
  "demoReceipt3 =
     \<lparr>PostState = hash_bytes 2, Status = 0, CumulativeGasUsed = 42000, Bloom = 0,
      Logs = [2], TxHash = 3, ContractAddress = 0, GasUsed = 21000\<rparr>"

definition demoOne ::
  "((bytes \<times> bytes) list, nat, unit, unit, unit, nat, nat) WriteAheadState" where
  "demoOne =
     \<lparr>db = [], ethState = 1, signer = (), chainConfig = (), vmConfig = (),
      gasLimit = 50000, txIndex = 1, transactions = [2], receipts = [demoReceipt2],
      allLogs = [1], totalUsedGas = Some 21000, gp = Some 29000\<rparr>"

definition demoApplied ::
  "((bytes \<times> bytes) list, nat, unit, unit, unit, nat, nat) WriteAheadState" where
  "demoApplied =
     \<lparr>db = [], ethState = 2, signer = (), chainConfig = (), vmConfig = (),
      gasLimit = 50000, txIndex = 2, transactions = [2, 3],
      receipts = [demoReceipt2, demoReceipt3], allLogs = [1, 2],
      totalUsedGas = Some 42000, gp = Some 8000\<rparr>"

text \<open>The messages of transactions 2 and 3 in that instance.\<close>

definition demoMessage2 :: message where
  "demoMessage2 =
     \<lparr>From = 2, To = None, Gas = 21000, GasPrice = 1, MsgNonce = 2, Value = 0, Data = [],
      CheckNonce = True\<rparr>"

definition demoMessage3 :: message where
  "demoMessage3 =
     \<lparr>From = 3, To = Some 1, Gas = 21000, GasPrice = 1, MsgNonce = 3, Value = 0, Data = [],
      CheckNonce = True\<rparr>"

text \<open>What the store holds after the trie flush and the root pointer, and after a whole
  \<^verbatim>\<open>Commit\<close> of that epoch.\<close>

definition demoRooted :: "(bytes \<times> bytes) list" where
  "demoRooted = [([0], hash_bytes 2), ([1], hash_bytes 2)]"

definition demoStored :: "(bytes \<times> bytes) list" where
  "demoStored =
     [([0], hash_bytes 2), ([1], hash_bytes 2), ([2], hash_bytes 3),
      (hash_bytes 2, [2]), (hash_bytes 3, [3]),
      ([3] @ hash_bytes 2, [1]), ([3] @ hash_bytes 3, [0])]"

text \<open>The same for an epoch without a transaction, committed right after \<^verbatim>\<open>Reset\<close>: the
  state is at root 0 there, and the head pointer is the hash of the empty transaction.\<close>

definition demoEmptyRooted :: "(bytes \<times> bytes) list" where
  "demoEmptyRooted = [([0], hash_bytes 0), ([1], hash_bytes 0)]"

definition demoEmptyStored :: "(bytes \<times> bytes) list" where
  "demoEmptyStored =
     [([0], hash_bytes 0), ([1], hash_bytes 0),
      ([2], hash_bytes (Hash demoEnv (emptyTransaction demoEnv)))]"

section \<open>Properties\<close>

subsection \<open>What one call does\<close>

lemma ApplyTransaction_returns_error:
  assumes "ApplyTransaction e was tx ti blockHash = Returned (Some err) was'"
  shows "\<exists>st pool. was' = was\<lparr>ethState := st, gp := pool\<rparr>"
  using assms
  apply (simp add: ApplyTransaction_def Let_def split: sum.splits prod.splits option.splits)
   apply (rule exI [of _ "ethState was"], rule exI [of _ "gp was"], simp)
  apply (auto)
  done

lemma ApplyTransaction_returns_nil:
  assumes "ApplyTransaction e was tx ti blockHash = Returned None was'"
  shows "\<exists>msg ret gas failed st2 pool used r.
           AsMessage e tx (signer was) = Inr msg \<and>
           ApplyMessage e
             \<lparr>GetHash = (\<lambda>_. blockHash), Origin = From msg, GasLimit = Gas msg,
              CtxGasPrice = GasPrice msg, BlockNumber = 0\<rparr>
             (chainConfig was) (vmConfig was) msg
             (Prepare e (ethState was) (Hash e tx) blockHash ti) (gp was)
             = ((ret, gas, failed, None), st2, pool) \<and>
           totalUsedGas was = Some used \<and>
           totalUsedGas was' = Some (used + uint gas) \<and>
           txIndex was' = txIndex was + 1 \<and>
           transactions was' = transactions was @ [tx] \<and>
           receipts was' = receipts was @ [r] \<and>
           allLogs was' = allLogs was @ Logs r \<and>
           gp was' = pool \<and>
           GasUsed r = gas \<and>
           Status r = (if failed then ReceiptStatusFailed else ReceiptStatusSuccessful) \<and>
           CumulativeGasUsed r = word_of_int (used + uint gas) \<and>
           TxHash r = Hash e tx \<and>
           ContractAddress r =
             (if To msg = None then CreateAddress e (From msg) (Nonce e tx) else 0)"
proof -
  obtain msg where m: "AsMessage e tx (signer was) = Inr msg"
    using assms by (auto simp: ApplyTransaction_def split: sum.splits)
  let ?run = "ApplyMessage e
             \<lparr>GetHash = (\<lambda>_. blockHash), Origin = From msg, GasLimit = Gas msg,
              CtxGasPrice = GasPrice msg, BlockNumber = 0\<rparr>
             (chainConfig was) (vmConfig was) msg
             (Prepare e (ethState was) (Hash e tx) blockHash ti) (gp was)"
  obtain ret gas failed eo st2 pool where x: "?run = ((ret, gas, failed, eo), st2, pool)"
    by (metis surj_pair)
  have eo: "eo = None"
    using assms m x by (cases eo) (simp_all add: ApplyTransaction_def Let_def)
  obtain used where u: "totalUsedGas was = Some used"
    using assms m x eo by (cases "totalUsedGas was") (simp_all add: ApplyTransaction_def Let_def)
  obtain root st3 where ir: "IntermediateRoot e st2 True = (root, st3)"
    by (metis surj_pair)
  define r1 :: "'g receipt" where
    "r1 = (NewReceipt (hash_bytes root) failed (word_of_int (used + uint gas)))
            \<lparr>TxHash := Hash e tx, GasUsed := gas\<rparr>"
  define r3 where
    "r3 = (if To msg = None
           then r1\<lparr>ContractAddress := CreateAddress e (From msg) (Nonce e tx)\<rparr>
           else r1)\<lparr>Logs := GetLogs e st3 (Hash e tx)\<rparr>"
  define r where "r = r3\<lparr>Bloom := CreateBloom e [r3]\<rparr>"
  have "ApplyTransaction e was tx ti blockHash =
          Returned None (was\<lparr>ethState := st3, gp := pool,
                        totalUsedGas := Some (used + uint gas),
                        txIndex := txIndex was + 1,
                        transactions := transactions was @ [tx],
                        receipts := receipts was @ [r],
                        allLogs := allLogs was @ Logs r\<rparr>)"
    using m x eo u ir
    by (simp add: ApplyTransaction_def Let_def r_def r3_def r1_def)
  with assms have w: "was' = was\<lparr>ethState := st3, gp := pool,
                        totalUsedGas := Some (used + uint gas),
                        txIndex := txIndex was + 1,
                        transactions := transactions was @ [tx],
                        receipts := receipts was @ [r],
                        allLogs := allLogs was @ Logs r\<rparr>"
    by simp
  have fields: "GasUsed r = gas"
    "Status r = (if failed then ReceiptStatusFailed else ReceiptStatusSuccessful)"
    "CumulativeGasUsed r = word_of_int (used + uint gas)"
    "TxHash r = Hash e tx"
    "ContractAddress r =
       (if To msg = None then CreateAddress e (From msg) (Nonce e tx) else 0)"
    by (simp_all add: r_def r3_def r1_def NewReceipt_def)
  show ?thesis
    using m x [unfolded eo] u w fields by (intro exI conjI) simp_all
qed

lemma ApplyTransaction_success:
  assumes "AsMessage e tx (signer was) = Inr msg"
    and "ApplyMessage e
             \<lparr>GetHash = (\<lambda>_. blockHash), Origin = From msg, GasLimit = Gas msg,
              CtxGasPrice = GasPrice msg, BlockNumber = 0\<rparr>
             (chainConfig was) (vmConfig was) msg
             (Prepare e (ethState was) (Hash e tx) blockHash ti) (gp was)
             = ((ret, gas, failed, None), st2, pool)"
    and "totalUsedGas was = Some used"
  shows "\<exists>was'. ApplyTransaction e was tx ti blockHash = Returned None was'"
  using assms
  by (simp add: ApplyTransaction_def Let_def split: prod.splits)

lemma ApplyTransaction_no_panic:
  assumes "totalUsedGas was = Some used"
  shows "\<exists>err was'. ApplyTransaction e was tx ti blockHash = Returned err was'"
  using assms
  by (simp add: ApplyTransaction_def Let_def split: sum.splits prod.splits option.splits)

lemma Reset_returns_nil:
  assumes "Reset e was root = (None, was')"
  shows "\<exists>st. was' = was\<lparr>ethState := st, txIndex := 0, transactions := [], receipts := [],
                          allLogs := [], totalUsedGas := Some 0, gp := Some (gasLimit was)\<rparr>"
  using assms by (auto simp: Reset_def split: prod.splits option.splits)

lemma Reset_returns_error:
  assumes "Reset e was root = (Some err, was')"
  shows "\<exists>st. was' = was\<lparr>ethState := st\<rparr>"
  using assms by (auto simp: Reset_def split: prod.splits option.splits)

lemma length_applied:
  "length errs = length calls \<Longrightarrow> length (applied calls errs) = count_list errs None"
  by (induction calls errs rule: applied.induct) auto

lemma applyAll_invariant:
  assumes "applyAll e was calls = Some (errs, was')" and "totalUsedGas was = Some used"
  shows "length errs = length calls \<and>
         transactions was' = transactions was @ applied calls errs \<and>
         length (receipts was') = length (receipts was) + count_list errs None \<and>
         txIndex was' = txIndex was + of_nat (count_list errs None) \<and>
         (\<exists>used'. totalUsedGas was' = Some used' \<and> used \<le> used' \<and>
            used' - sum_list (map (\<lambda>r. uint (GasUsed r)) (receipts was'))
              = used - sum_list (map (\<lambda>r. uint (GasUsed r)) (receipts was)))"
  using assms
proof (induction calls arbitrary: was errs used)
  case Nil
  then show ?case by simp
next
  case (Cons c calls)
  obtain tx ti blockHash where c: "c = (tx, ti, blockHash)"
    by (cases c) auto
  obtain err mid where a: "ApplyTransaction e was tx ti blockHash = Returned err mid"
    using ApplyTransaction_no_panic [OF Cons.prems(2)] by blast
  obtain errs' where r: "applyAll e mid calls = Some (errs', was')" and errs: "errs = err # errs'"
    using Cons.prems(1) c a by (auto split: option.splits)
  show ?case
  proof (cases err)
    case None
    from ApplyTransaction_returns_nil [OF a [unfolded None]] Cons.prems(2)
    obtain gas rc where
      m: "totalUsedGas mid = Some (used + uint gas)" "txIndex mid = txIndex was + 1"
        "transactions mid = transactions was @ [tx]" "receipts mid = receipts was @ [rc]"
        "GasUsed rc = gas"
      by auto
    from Cons.IH [OF r m(1)] obtain used' where
      ih: "length errs' = length calls"
        "transactions was' = transactions mid @ applied calls errs'"
        "length (receipts was') = length (receipts mid) + count_list errs' None"
        "txIndex was' = txIndex mid + of_nat (count_list errs' None)"
        "totalUsedGas was' = Some used'" "used + uint gas \<le> used'"
        "used' - sum_list (map (\<lambda>r. uint (GasUsed r)) (receipts was'))
           = used + uint gas - sum_list (map (\<lambda>r. uint (GasUsed r)) (receipts mid))"
      by blast
    have mono: "used \<le> used'"
      using ih(6) uint_ge_0 [of gas] by linarith
    have sum: "used' - sum_list (map (\<lambda>r. uint (GasUsed r)) (receipts was'))
                 = used - sum_list (map (\<lambda>r. uint (GasUsed r)) (receipts was))"
      using ih(7) m(4,5) by simp
    show ?thesis
      using ih(1-5) m(2-4) mono sum errs c None by simp
  next
    case (Some x)
    from ApplyTransaction_returns_error [OF a [unfolded Some]]
    obtain st pool where m: "mid = was\<lparr>ethState := st, gp := pool\<rparr>"
      by blast
    then have u: "totalUsedGas mid = Some used"
      using Cons.prems(2) by simp
    from Cons.IH [OF r u] m errs c Some show ?thesis
      by auto
  qed
qed

lemma applyAll_total:
  assumes "totalUsedGas was = Some used"
  shows "\<exists>errs was'. applyAll e was calls = Some (errs, was')"
  using assms
proof (induction calls arbitrary: was used)
  case Nil
  then show ?case by simp
next
  case (Cons c calls)
  obtain tx ti blockHash where c: "c = (tx, ti, blockHash)"
    by (cases c) auto
  obtain err mid where a: "ApplyTransaction e was tx ti blockHash = Returned err mid"
    using ApplyTransaction_no_panic [OF Cons.prems] by blast
  have "\<exists>u. totalUsedGas mid = Some u"
  proof (cases err)
    case None
    from ApplyTransaction_returns_nil [OF a [unfolded None]] show ?thesis by auto
  next
    case (Some x)
    from ApplyTransaction_returns_error [OF a [unfolded Some]] Cons.prems show ?thesis by auto
  qed
  then obtain u where "totalUsedGas mid = Some u" ..
  from Cons.IH [OF this] obtain errs was' where "applyAll e mid calls = Some (errs, was')"
    by blast
  with a c show ?case by simp
qed

lemma sint_of_nat_small:
  "N < 2 ^ 63 \<Longrightarrow> sint (of_nat N :: 64 word) = int N"
  by (simp add: signed_of_nat signed_take_bit_int_eq_self)

subsection \<open>What the stages of a commit do\<close>

lemma runStage_frame:
  assumes "runStage e g (root, was) = (err, root', was')"
  shows "gasLimit was' = gasLimit was \<and> txIndex was' = txIndex was \<and>
         transactions was' = transactions was \<and> receipts was' = receipts was \<and>
         allLogs was' = allLogs was \<and> totalUsedGas was' = totalUsedGas was \<and>
         gp was' = gp was"
  using assms
  by (cases g)
    (auto simp: writeRoot_def writeHead_def writeTransactions_def writeReceipts_def Let_def
      split: prod.splits sum.splits)

lemma pipeline_frame:
  assumes "pipeline e gs (root, was) = (passed, err, root', was')"
  shows "gasLimit was' = gasLimit was \<and> txIndex was' = txIndex was \<and>
         transactions was' = transactions was \<and> receipts was' = receipts was \<and>
         allLogs was' = allLogs was \<and> totalUsedGas was' = totalUsedGas was \<and>
         gp was' = gp was"
  using assms
proof (induction gs arbitrary: root was passed)
  case Nil
  then show ?case by simp
next
  case (Cons g gs)
  obtain r root1 was1 where s: "runStage e g (root, was) = (r, root1, was1)"
    by (metis surj_pair)
  note f = runStage_frame [OF s]
  show ?case
  proof (cases r)
    case None
    obtain p2 where "pipeline e gs (root1, was1) = (p2, err, root', was')"
      using Cons.prems s None by (auto split: prod.splits)
    from Cons.IH [OF this] f show ?thesis by simp
  next
    case (Some x)
    then have "was' = was1"
      using Cons.prems s by simp
    with f show ?thesis by simp
  qed
qed

lemma pipeline_passed:
  assumes "pipeline e gs rw = (passed, err, rw')"
  shows "passed = take (length passed) gs \<and> (err = None \<longrightarrow> passed = gs) \<and>
         (err \<noteq> None \<longrightarrow> length passed < length gs)"
  using assms
proof (induction gs arbitrary: rw passed)
  case Nil
  then show ?case by simp
next
  case (Cons g gs)
  obtain r rw1 where s: "runStage e g rw = (r, rw1)"
    by (metis surj_pair)
  show ?case
  proof (cases r)
    case None
    obtain p2 where p: "pipeline e gs rw1 = (p2, err, rw')" and "passed = g # p2"
      using Cons.prems s None by (auto split: prod.splits)
    with Cons.IH [OF p] show ?thesis by auto
  next
    case (Some x)
    then show ?thesis
      using Cons.prems s by auto
  qed
qed

lemma pipeline_abort:
  assumes "pipeline e gs rw = (passed, Some x, rw')"
  shows "\<exists>mid. pipeline e passed rw = (passed, None, mid) \<and>
               runStage e (gs ! length passed) mid = (Some x, rw')"
  using assms
proof (induction gs arbitrary: rw passed)
  case Nil
  then show ?case by simp
next
  case (Cons g gs)
  obtain r rw1 where s: "runStage e g rw = (r, rw1)"
    by (metis surj_pair)
  show ?case
  proof (cases r)
    case None
    obtain p2 where p: "pipeline e gs rw1 = (p2, Some x, rw')" and "passed = g # p2"
      using Cons.prems s None by (auto split: prod.splits)
    with Cons.IH [OF p] s None show ?thesis by auto
  next
    case (Some y)
    then show ?thesis
      using Cons.prems s by simp
  qed
qed

lemma Commit_pipeline:
  "Commit e was =
     (case pipeline e commitStages (h, was) of
        (passed, err, root, was') \<Rightarrow> ((if err = None then root else 0, err), was'))"
  by (simp add: Commit_def commitStages_def split: prod.split option.split)

lemma pipeline_root:
  "fst (snd (snd (pipeline e commitStages (h, was)))) = fst (StateCommit e (ethState was) True)"
  by (simp add: commitStages_def split: prod.split option.split)

lemma Commit_pipeline_cases:
  assumes "Commit e was = ((h, err), was')"
  shows "\<exists>passed root. pipeline e commitStages (0, was) = (passed, err, root, was') \<and>
           h = (if err = None then root else 0)"
proof -
  obtain passed err0 root was0 where
    p: "pipeline e commitStages (0, was) = (passed, err0, root, was0)"
    by (metis surj_pair)
  from Commit_pipeline [of e was 0] p assms show ?thesis
    by simp
qed

lemma Commit_after_root_write:
  assumes "StateCommit e (ethState was) True = (root, None, st1)"
    and "TrieDBCommit e st1 (db was) root True = (None, st2, d2)"
    and "Put e d2 (rootKey e) (hash_bytes root) = (None, d3)"
  shows "Commit e was =
           (case writeHead e (was\<lparr>ethState := st2, db := d3\<rparr>) of
              (Some err, was4) \<Rightarrow> ((0, Some err), was4)
            | (None, was4) \<Rightarrow>
                (case pipeline e [TxWrite, ReceiptWrite] (root, was4) of
                   (passed, err, r, was') \<Rightarrow> ((if err = None then root else 0, err), was')))"
  using assms
  by (simp add: Commit_def writeRoot_def split: prod.split option.split)

subsection \<open>The instance, evaluated\<close>

lemma demo_New: "NewWriteAheadState demoEnv [] 1 () () () 50000 = Inr demoFresh"
  by (simp add: NewWriteAheadState_def demoEnv_def demoFresh_def)

lemma demo_Reset: "Reset demoEnv demoFresh 1 = (None, demoReset)"
  by (simp add: Reset_def demoEnv_def demoFresh_def demoReset_def)

lemma demo_Reset_fails:
  "Reset demoEnv demoApplied 0 = (Some (Error ''missing trie node''), demoApplied)"
  by (simp add: Reset_def demoEnv_def demoApplied_def)

lemma demo_apply_2: "ApplyTransaction demoEnv demoReset 2 0 7 = Returned None demoOne"
  by (simp add: ApplyTransaction_def demoEnv_def demoReset_def demoOne_def demoReceipt2_def
      NewReceipt_def ReceiptStatusSuccessful_def ReceiptStatusFailed_def Let_def)

lemma demo_apply_0:
  "ApplyTransaction demoEnv demoOne 0 1 7 = Returned (Some (Error ''invalid sender'')) demoOne"
  by (simp add: ApplyTransaction_def demoEnv_def)

lemma demo_apply_3: "ApplyTransaction demoEnv demoOne 3 1 7 = Returned None demoApplied"
  by (simp add: ApplyTransaction_def demoEnv_def demoOne_def demoApplied_def demoReceipt3_def
      NewReceipt_def ReceiptStatusSuccessful_def ReceiptStatusFailed_def Let_def)

lemma demo_apply_5:
  "ApplyTransaction demoEnv demoApplied 5 2 7 =
     Returned (Some (Error ''gas limit reached'')) demoApplied"
  by (simp add: ApplyTransaction_def demoEnv_def demoApplied_def Let_def)

lemma demo_applyAll: "applyAll demoEnv demoReset demoCalls = Some (demoErrs, demoApplied)"
  by (simp add: demoCalls_def demoErrs_def demo_apply_2 demo_apply_0 demo_apply_3 demo_apply_5)

lemma demo_Commit:
  "Commit demoEnv demoApplied = ((2, None), demoApplied\<lparr>db := demoStored\<rparr>)"
  by (simp add: Commit_def writeRoot_def writeHead_def writeTransactions_def
      writeReceipts_def demoEnv_def demoApplied_def demoStored_def demoReceipt2_def
      demoReceipt3_def)

lemma demo_Commit_fails:
  "Commit (demoEnv\<lparr>headTxKey := []\<rparr>) demoApplied =
     ((0, Some (Error ''empty key'')), demoApplied\<lparr>db := demoRooted\<rparr>)"
  by (simp add: Commit_def writeRoot_def writeHead_def demoEnv_def demoApplied_def
      demoRooted_def)

lemma demo_AsMessage_2: "AsMessage demoEnv 2 (signer demoReset) = Inr demoMessage2"
  by (simp add: demoEnv_def demoMessage2_def)

lemma demo_AsMessage_3: "AsMessage demoEnv 3 (signer demoOne) = Inr demoMessage3"
  by (simp add: demoEnv_def demoMessage3_def)

lemma demo_execute_3:
  "execute demoEnv demoOne 3 1 7 demoMessage3 = (([], 21000, True, None), 2, Some 8000)"
  by (simp add: execute_def demoEnv_def demoOne_def demoMessage3_def)

lemma demo_applyAll_one:
  "applyAll demoEnv demoReset [(2, 0, 7), (0, 1, 7)] =
     Some ([None, Some (Error ''invalid sender'')], demoOne)"
  by (simp add: demo_apply_2 demo_apply_0)

lemma demo_pipeline:
  "pipeline demoEnv commitStages (0, demoApplied) =
     (commitStages, None, 2, demoApplied\<lparr>db := demoStored\<rparr>)"
  by (simp add: commitStages_def writeRoot_def writeHead_def writeTransactions_def
      writeReceipts_def demoEnv_def demoApplied_def demoStored_def demoReceipt2_def
      demoReceipt3_def)

lemma demo_pipeline_fails:
  "pipeline (demoEnv\<lparr>headTxKey := []\<rparr>) commitStages (0, demoApplied) =
     ([StateFinalize, TrieFlush, RootWrite], Some (Error ''empty key''), 2,
      demoApplied\<lparr>db := demoRooted\<rparr>)"
  by (simp add: commitStages_def writeRoot_def writeHead_def demoEnv_def demoApplied_def
      demoRooted_def)

lemma demo_StateCommit_applied:
  "StateCommit demoEnv (ethState demoApplied) True = (2, None, 2)"
  by (simp add: demoEnv_def demoApplied_def)

lemma demo_TrieDBCommit_applied:
  "TrieDBCommit demoEnv 2 (db demoApplied) 2 True = (None, 2, [([0], hash_bytes 2)])"
  by (simp add: demoEnv_def demoApplied_def)

lemma demo_Put_root_applied:
  "Put demoEnv [([0], hash_bytes 2)] (rootKey demoEnv) (hash_bytes 2) = (None, demoRooted)"
  by (simp add: demoEnv_def demoRooted_def)

lemma demo_applyAll_none: "applyAll demoEnv demoReset [] = Some ([], demoReset)"
  by simp

lemma demo_StateCommit_reset:
  "StateCommit demoEnv (ethState demoReset) True = (0, None, 0)"
  by (simp add: demoEnv_def demoReset_def)

lemma demo_TrieDBCommit_reset:
  "TrieDBCommit demoEnv 0 (db demoReset) 0 True = (None, 0, [([0], hash_bytes 0)])"
  by (simp add: demoEnv_def demoReset_def)

lemma demo_Put_root_reset:
  "Put demoEnv [([0], hash_bytes 0)] (rootKey demoEnv) (hash_bytes 0) = (None, demoEmptyRooted)"
  by (simp add: demoEnv_def demoEmptyRooted_def)

lemma demo_tail_applied:
  "pipeline demoEnv [TxWrite, ReceiptWrite]
     (2, demoApplied\<lparr>ethState := 2, db := demoRooted @ [([2], hash_bytes 3)]\<rparr>) =
     ([TxWrite, ReceiptWrite], None, 2, demoApplied\<lparr>db := demoStored\<rparr>)"
  by (simp add: writeTransactions_def writeReceipts_def demoEnv_def demoApplied_def
      demoStored_def demoRooted_def demoReceipt2_def demoReceipt3_def)

lemma demo_tail_reset:
  "pipeline demoEnv [TxWrite, ReceiptWrite]
     (0, demoReset\<lparr>ethState := 0, db := demoEmptyRooted @ [([2], hash_bytes 0)]\<rparr>) =
     ([TxWrite, ReceiptWrite], None, 0, demoReset\<lparr>db := demoEmptyStored\<rparr>)"
  by (simp add: writeTransactions_def writeReceipts_def demoEnv_def demoReset_def
      demoEmptyStored_def demoEmptyRooted_def)

section \<open>The claims\<close>

subsection \<open>ApplyTransaction\<close>

text \<open>
  C4. Whenever \<^verbatim>\<open>ApplyTransaction\<close> returns an error (the signer cannot derive the
  message, or the engine returns an error, as when the gas pool is exhausted), the
  transaction, receipt and log buffers, the cumulative gas counter and the transaction
  index are what they were before the call.
\<close>

theorem ApplyTransaction_error_leaves_buffers:
  assumes "ApplyTransaction e was tx ti blockHash = Returned (Some err) was'"
  shows "transactions was' = transactions was \<and> receipts was' = receipts was \<and>
         allLogs was' = allLogs was \<and> totalUsedGas was' = totalUsedGas was \<and>
         txIndex was' = txIndex was"
  using ApplyTransaction_returns_error [OF assms] by auto

theorem ApplyTransaction_error_leaves_buffers_witness:
  "ApplyTransaction demoEnv demoApplied 5 2 7 =
     Returned (Some (Error ''gas limit reached'')) demoApplied \<and>
   transactions demoApplied = [2, 3] \<and>
   receipts demoApplied = [demoReceipt2, demoReceipt3] \<and>
   allLogs demoApplied = [1, 2] \<and> totalUsedGas demoApplied = Some 42000 \<and>
   txIndex demoApplied = 2"
  using ApplyTransaction_error_leaves_buffers [OF demo_apply_5] demo_apply_5
  by (simp add: demoApplied_def)

text \<open>
  C3. On a struct that has been reset (its gas counter is allocated), a transaction whose
  message is derived and whose execution ends without an engine error is applied with
  success whatever the flag \<open>failed\<close> says: the transaction, a receipt and the receipt's
  logs are appended, the index grows by one, the gas is added to the cumulative gas, and
  the receipt records the gas and, for a reverting transaction, the failed status.
\<close>

theorem ApplyTransaction_revert_is_success:
  assumes "totalUsedGas was = Some used"
    and "AsMessage e tx (signer was) = Inr msg"
    and "execute e was tx ti blockHash msg = ((ret, gas, failed, None), st2, pool)"
  shows "\<exists>was' r. ApplyTransaction e was tx ti blockHash = Returned None was' \<and>
           transactions was' = transactions was @ [tx] \<and>
           receipts was' = receipts was @ [r] \<and>
           allLogs was' = allLogs was @ Logs r \<and>
           txIndex was' = txIndex was + 1 \<and>
           totalUsedGas was' = Some (used + uint gas) \<and>
           GasUsed r = gas \<and>
           Status r = (if failed then ReceiptStatusFailed else ReceiptStatusSuccessful)"
proof -
  from ApplyTransaction_success [OF assms(2) assms(3) [unfolded execute_def] assms(1)]
  obtain was' where a: "ApplyTransaction e was tx ti blockHash = Returned None was'"
    by blast
  from ApplyTransaction_returns_nil [OF a] assms show ?thesis
    unfolding execute_def using a by fastforce
qed

theorem ApplyTransaction_revert_is_success_witness:
  "totalUsedGas demoOne = Some 21000 \<and>
   AsMessage demoEnv 3 (signer demoOne) = Inr demoMessage3 \<and>
   execute demoEnv demoOne 3 1 7 demoMessage3 = (([], 21000, True, None), 2, Some 8000) \<and>
   (\<exists>was' r. ApplyTransaction demoEnv demoOne 3 1 7 = Returned None was' \<and>
      transactions was' = transactions demoOne @ [3] \<and>
      receipts was' = receipts demoOne @ [r] \<and>
      allLogs was' = allLogs demoOne @ Logs r \<and>
      txIndex was' = txIndex demoOne + 1 \<and>
      totalUsedGas was' = Some (21000 + uint (21000 :: 64 word)) \<and>
      GasUsed r = 21000 \<and>
      Status r = (if True then ReceiptStatusFailed else ReceiptStatusSuccessful))"
proof -
  have u: "totalUsedGas demoOne = Some 21000"
    by (simp add: demoOne_def)
  show ?thesis
    by (intro conjI u demo_AsMessage_3 demo_execute_3
        ApplyTransaction_revert_is_success [OF u demo_AsMessage_3 demo_execute_3])
qed

text \<open>
  C8. The receipt of an applied transaction has \<^verbatim>\<open>crypto.CreateAddress\<close> of the origin
  (the sender of the message) and the transaction's nonce as its contract address when
  the message has no recipient, and the zero address otherwise.
\<close>

theorem receipt_contract_address:
  assumes "ApplyTransaction e was tx ti blockHash = Returned None was'"
    and "AsMessage e tx (signer was) = Inr msg"
  shows "\<exists>r. receipts was' = receipts was @ [r] \<and>
           ContractAddress r =
             (if To msg = None then CreateAddress e (From msg) (Nonce e tx) else 0)"
  using ApplyTransaction_returns_nil [OF assms(1)] assms(2) by fastforce

theorem receipt_contract_address_witness:
  "ApplyTransaction demoEnv demoReset 2 0 7 = Returned None demoOne \<and>
   AsMessage demoEnv 2 (signer demoReset) = Inr demoMessage2 \<and>
   (\<exists>r. receipts demoOne = receipts demoReset @ [r] \<and>
      ContractAddress r =
        (if To demoMessage2 = None
         then CreateAddress demoEnv (From demoMessage2) (Nonce demoEnv 2) else 0))"
  by (intro conjI demo_apply_2 demo_AsMessage_2
      receipt_contract_address [OF demo_apply_2 demo_AsMessage_2])

subsection \<open>Epochs\<close>

text \<open>
  C5. After a successful \<^verbatim>\<open>Reset\<close>, any sequence of calls of \<^verbatim>\<open>ApplyTransaction\<close> runs
  to its end without a panic, and when \<open>N\<close> of the calls returned nil, the transactions
  buffer and the receipts buffer have length \<open>N\<close> and the index is \<open>N\<close> as a Go \<^verbatim>\<open>int\<close>:
  the 64-bit word of \<open>N\<close>, whose signed value is \<open>N\<close> for every length a Go slice can have
  (below \<open>2 ^ 63\<close>).
\<close>

theorem epoch_counts_agree:
  assumes "Reset e was root = (None, was0)"
  shows "\<exists>errs was1. applyAll e was0 calls = Some (errs, was1) \<and>
           length errs = length calls \<and>
           length (transactions was1) = count_list errs None \<and>
           length (receipts was1) = count_list errs None \<and>
           txIndex was1 = of_nat (count_list errs None) \<and>
           (count_list errs None < 2 ^ 63 \<longrightarrow>
              sint (txIndex was1) = int (count_list errs None))"
proof -
  from Reset_returns_nil [OF assms] have z: "totalUsedGas was0 = Some 0"
    "transactions was0 = []" "receipts was0 = []" "txIndex was0 = 0"
    by auto
  from applyAll_total [OF z(1)] obtain errs was1 where
    a: "applyAll e was0 calls = Some (errs, was1)"
    by blast
  note i = applyAll_invariant [OF a z(1)]
  have "length (transactions was1) = count_list errs None"
    using i z(2) by (simp add: length_applied)
  moreover have "length (receipts was1) = count_list errs None"
    using i z(3) by simp
  moreover have t: "txIndex was1 = of_nat (count_list errs None)"
    using i z(4) by simp
  moreover have "count_list errs None < 2 ^ 63 \<longrightarrow>
      sint (txIndex was1) = int (count_list errs None)"
    using t sint_of_nat_small by simp
  ultimately show ?thesis
    using a i by blast
qed

theorem epoch_counts_agree_witness:
  "Reset demoEnv demoFresh 1 = (None, demoReset) \<and>
   applyAll demoEnv demoReset demoCalls = Some (demoErrs, demoApplied) \<and>
   count_list demoErrs None = 2 \<and>
   length (transactions demoApplied) = 2 \<and> length (receipts demoApplied) = 2 \<and>
   txIndex demoApplied = 2 \<and> sint (txIndex demoApplied) = 2"
  using epoch_counts_agree [OF demo_Reset, of demoCalls] demo_Reset demo_applyAll
  by (simp add: demoErrs_def)

text \<open>
  C9. In an epoch (a successful \<^verbatim>\<open>Reset\<close>, then any calls), the cumulative gas used is
  the integer sum of the gas used recorded in the receipts, one per applied transaction;
  a further successful call adds the gas the engine reports for it, reverted or not, so
  the counter does not decrease and is again the sum over all the receipts.
\<close>

theorem cumulative_gas_is_sum:
  assumes "Reset e was root = (None, was0)"
    and "applyAll e was0 calls = Some (errs, was1)"
    and "ApplyTransaction e was1 tx ti blockHash = Returned None was2"
  shows "\<exists>msg ret gas failed st2 pool r.
           AsMessage e tx (signer was1) = Inr msg \<and>
           execute e was1 tx ti blockHash msg = ((ret, gas, failed, None), st2, pool) \<and>
           receipts was2 = receipts was1 @ [r] \<and> GasUsed r = gas \<and>
           totalUsedGas was1 = Some (\<Sum>r\<leftarrow>receipts was1. uint (GasUsed r)) \<and>
           totalUsedGas was2 = Some ((\<Sum>r\<leftarrow>receipts was1. uint (GasUsed r)) + uint gas) \<and>
           totalUsedGas was2 = Some (\<Sum>r\<leftarrow>receipts was2. uint (GasUsed r)) \<and>
           (\<Sum>r\<leftarrow>receipts was1. uint (GasUsed r)) \<le> (\<Sum>r\<leftarrow>receipts was2. uint (GasUsed r))"
proof -
  from Reset_returns_nil [OF assms(1)] have z: "totalUsedGas was0 = Some 0" "receipts was0 = []"
    by auto
  from applyAll_invariant [OF assms(2) z(1)] z(2)
  have u1: "totalUsedGas was1 = Some (\<Sum>r\<leftarrow>receipts was1. uint (GasUsed r))"
    by auto
  from ApplyTransaction_returns_nil [OF assms(3)] u1
  obtain msg ret gas failed st2 pool r where
    n: "AsMessage e tx (signer was1) = Inr msg"
      "execute e was1 tx ti blockHash msg = ((ret, gas, failed, None), st2, pool)"
      "totalUsedGas was2 = Some ((\<Sum>r\<leftarrow>receipts was1. uint (GasUsed r)) + uint gas)"
      "receipts was2 = receipts was1 @ [r]" "GasUsed r = gas"
    unfolding execute_def by auto
  have s: "(\<Sum>r\<leftarrow>receipts was2. uint (GasUsed r))
             = (\<Sum>r\<leftarrow>receipts was1. uint (GasUsed r)) + uint gas"
    using n(4,5) by simp
  have "0 \<le> uint gas"
    by (rule uint_ge_0)
  then have m: "(\<Sum>r\<leftarrow>receipts was1. uint (GasUsed r)) \<le> (\<Sum>r\<leftarrow>receipts was2. uint (GasUsed r))"
    using s by linarith
  show ?thesis
    using n u1 s m by (intro exI conjI) simp_all
qed

theorem cumulative_gas_is_sum_witness:
  "Reset demoEnv demoFresh 1 = (None, demoReset) \<and>
   applyAll demoEnv demoReset [(2, 0, 7), (0, 1, 7)] =
     Some ([None, Some (Error ''invalid sender'')], demoOne) \<and>
   ApplyTransaction demoEnv demoOne 3 1 7 = Returned None demoApplied \<and>
   totalUsedGas demoOne = Some (\<Sum>r\<leftarrow>receipts demoOne. uint (GasUsed r)) \<and>
   totalUsedGas demoApplied = Some (\<Sum>r\<leftarrow>receipts demoApplied. uint (GasUsed r)) \<and>
   totalUsedGas demoOne = Some 21000 \<and> totalUsedGas demoApplied = Some 42000"
  using cumulative_gas_is_sum [OF demo_Reset demo_applyAll_one demo_apply_3]
    demo_Reset demo_applyAll_one demo_apply_3
  by (auto simp: demoOne_def demoApplied_def)

subsection \<open>Reset\<close>

text \<open>
  C6, as stated, for every call of \<^verbatim>\<open>Reset\<close>: it fails where \<^verbatim>\<open>ethState.Reset\<close> returns an
  error. In the instance no trie has root 0, and \<^verbatim>\<open>Reset\<close> on root 0 after two applied
  transactions leaves the buffers, the pool and the counters as they were.
\<close>

theorem Reset_failure_keeps_buffers:
  "\<not> (transactions (snd (Reset demoEnv demoApplied 0)) = [] \<and>
      receipts (snd (Reset demoEnv demoApplied 0)) = [] \<and>
      allLogs (snd (Reset demoEnv demoApplied 0)) = [] \<and>
      gp (snd (Reset demoEnv demoApplied 0)) = Some (gasLimit demoApplied) \<and>
      totalUsedGas (snd (Reset demoEnv demoApplied 0)) = Some 0 \<and>
      txIndex (snd (Reset demoEnv demoApplied 0)) = 0)"
  by (simp add: demo_Reset_fails) (simp add: demoApplied_def)

text \<open>
  C6, amended. \<^verbatim>\<open>Reset(root)\<close> returns what \<^verbatim>\<open>ethState.Reset(root)\<close> returns. Whenever
  that is nil, whatever the struct held before, the three buffers are empty, the gas pool
  is the configured gas limit, and the cumulative gas and the transaction index are zero;
  when it is an error, they are all unchanged.
\<close>

theorem Reset_clears_on_success:
  assumes "Reset e was root = (err, was')"
  shows "err = fst (StateReset e (ethState was) root) \<and>
         (err = None \<longrightarrow>
            transactions was' = [] \<and> receipts was' = [] \<and> allLogs was' = [] \<and>
            gp was' = Some (gasLimit was) \<and> totalUsedGas was' = Some 0 \<and> txIndex was' = 0) \<and>
         (err \<noteq> None \<longrightarrow>
            transactions was' = transactions was \<and> receipts was' = receipts was \<and>
            allLogs was' = allLogs was \<and> gp was' = gp was \<and>
            totalUsedGas was' = totalUsedGas was \<and> txIndex was' = txIndex was)"
proof -
  have r: "err = fst (StateReset e (ethState was) root)"
    using assms by (auto simp: Reset_def split: prod.splits option.splits)
  show ?thesis
  proof (cases err)
    case None
    with Reset_returns_nil [of e was root was'] assms r show ?thesis by auto
  next
    case (Some x)
    with Reset_returns_error [of e was root x was'] assms r show ?thesis by auto
  qed
qed

theorem Reset_clears_on_success_witness:
  "Reset demoEnv demoFresh 1 = (None, demoReset) \<and>
   fst (StateReset demoEnv (ethState demoFresh) 1) = None \<and>
   transactions demoReset = [] \<and> receipts demoReset = [] \<and> allLogs demoReset = [] \<and>
   gp demoReset = Some (gasLimit demoFresh) \<and> totalUsedGas demoReset = Some 0 \<and>
   txIndex demoReset = 0 \<and>
   Reset demoEnv demoApplied 0 = (Some (Error ''missing trie node''), demoApplied) \<and>
   fst (StateReset demoEnv (ethState demoApplied) 0) = Some (Error ''missing trie node'') \<and>
   transactions demoApplied = [2, 3]"
  using Reset_clears_on_success [OF demo_Reset] Reset_clears_on_success [OF demo_Reset_fails]
    demo_Reset demo_Reset_fails
  by (simp add: demoApplied_def)

subsection \<open>Commit\<close>

text \<open>
  C7. \<^verbatim>\<open>Commit\<close>, whether it succeeds or fails, leaves the transaction, receipt and log
  buffers, the transaction index, the gas pool and the cumulative gas counter as they
  were; only \<^verbatim>\<open>Reset\<close> clears them.
\<close>

theorem Commit_keeps_session:
  assumes "Commit e was = (result, was')"
  shows "transactions was' = transactions was \<and> receipts was' = receipts was \<and>
         allLogs was' = allLogs was \<and> txIndex was' = txIndex was \<and>
         gp was' = gp was \<and> totalUsedGas was' = totalUsedGas was"
proof -
  obtain h err where "result = (h, err)"
    by (cases result) auto
  with Commit_pipeline_cases [of e was h err was'] assms
  obtain passed root where "pipeline e commitStages (0, was) = (passed, err, root, was')"
    by blast
  from pipeline_frame [OF this] show ?thesis
    by simp
qed

theorem Commit_keeps_session_witness:
  "Commit demoEnv demoApplied = ((2, None), demoApplied\<lparr>db := demoStored\<rparr>) \<and>
   transactions (demoApplied\<lparr>db := demoStored\<rparr>) = transactions demoApplied \<and>
   receipts (demoApplied\<lparr>db := demoStored\<rparr>) = receipts demoApplied \<and>
   allLogs (demoApplied\<lparr>db := demoStored\<rparr>) = allLogs demoApplied \<and>
   txIndex (demoApplied\<lparr>db := demoStored\<rparr>) = txIndex demoApplied \<and>
   gp (demoApplied\<lparr>db := demoStored\<rparr>) = gp demoApplied \<and>
   totalUsedGas (demoApplied\<lparr>db := demoStored\<rparr>) = totalUsedGas demoApplied \<and>
   transactions (demoApplied\<lparr>db := demoStored\<rparr>) = [2, 3]"
  using Commit_keeps_session [OF demo_Commit] demo_Commit
  by (simp add: demoApplied_def)

text \<open>
  C10. Whenever \<^verbatim>\<open>Commit\<close> returns an error, the hash it returns with it is the zero
  hash.
\<close>

theorem Commit_error_zero_hash:
  assumes "Commit e was = ((h, Some err), was')"
  shows "h = 0"
  using Commit_pipeline_cases [OF assms] by auto

theorem Commit_error_zero_hash_witness:
  "Commit (demoEnv\<lparr>headTxKey := []\<rparr>) demoApplied =
     ((0, Some (Error ''empty key'')), demoApplied\<lparr>db := demoRooted\<rparr>) \<and>
   (0 :: hash) = 0"
  using Commit_error_zero_hash [OF demo_Commit_fails] demo_Commit_fails
  by simp

text \<open>
  C1. \<^verbatim>\<open>Commit\<close> is the pipeline of the stages state finalize, trie flush, root
  pointer, head pointer, transaction batch and receipt batch, in this order. The stages
  that succeeded are a prefix of that list; \<^verbatim>\<open>Commit\<close> returns nil exactly when all of
  them succeeded, and then returns the root that the state finalize produced; otherwise
  it returns the zero hash with the error of the first stage that failed, and the struct
  is as that stage left it: no later stage has run.
\<close>

theorem Commit_runs_stages_in_order:
  assumes "Commit e was = ((h, err), was')"
  shows "\<exists>passed root.
           pipeline e commitStages (0, was) = (passed, err, root, was') \<and>
           passed = take (length passed) commitStages \<and>
           (err = None \<longleftrightarrow> passed = commitStages) \<and>
           root = fst (StateCommit e (ethState was) True) \<and>
           h = (if passed = commitStages then root else 0) \<and>
           (\<forall>x. err = Some x \<longrightarrow>
              (\<exists>mid. pipeline e passed (0, was) = (passed, None, mid) \<and>
                 runStage e (commitStages ! length passed) mid = (Some x, root, was')))"
proof -
  from Commit_pipeline_cases [OF assms] obtain passed root where
    p: "pipeline e commitStages (0, was) = (passed, err, root, was')"
    and h: "h = (if err = None then root else 0)"
    by blast
  note q = pipeline_passed [OF p]
  have iff: "err = None \<longleftrightarrow> passed = commitStages"
    using q by auto
  have r: "root = fst (StateCommit e (ethState was) True)"
    using pipeline_root [of e 0 was] p by simp
  have a: "\<forall>x. err = Some x \<longrightarrow>
              (\<exists>mid. pipeline e passed (0, was) = (passed, None, mid) \<and>
                 runStage e (commitStages ! length passed) mid = (Some x, root, was'))"
    using pipeline_abort [of e commitStages "(0, was)" passed _ "(root, was')"] p by auto
  show ?thesis
    using p q iff r h a by (intro exI conjI) auto
qed

theorem Commit_runs_stages_in_order_witness:
  "Commit demoEnv demoApplied = ((2, None), demoApplied\<lparr>db := demoStored\<rparr>) \<and>
   pipeline demoEnv commitStages (0, demoApplied) =
     (commitStages, None, 2, demoApplied\<lparr>db := demoStored\<rparr>) \<and>
   Commit (demoEnv\<lparr>headTxKey := []\<rparr>) demoApplied =
     ((0, Some (Error ''empty key'')), demoApplied\<lparr>db := demoRooted\<rparr>) \<and>
   pipeline (demoEnv\<lparr>headTxKey := []\<rparr>) commitStages (0, demoApplied) =
     ([StateFinalize, TrieFlush, RootWrite], Some (Error ''empty key''), 2,
      demoApplied\<lparr>db := demoRooted\<rparr>)"
  using Commit_runs_stages_in_order [OF demo_Commit]
    Commit_runs_stages_in_order [OF demo_Commit_fails] demo_Commit demo_Commit_fails
    demo_pipeline demo_pipeline_fails
  by simp

text \<open>
  C2. In an epoch (a successful \<^verbatim>\<open>Reset\<close>, then any calls), a \<^verbatim>\<open>Commit\<close> whose state
  finalize, trie flush and root pointer write succeed goes on with one \<^verbatim>\<open>Put\<close>, on the
  store as the root pointer write left it, under \<^verbatim>\<open>headTxKey\<close>, of the bytes of the hash
  of the last transaction applied in the epoch, or of the hash of the empty transaction
  \<^verbatim>\<open>ethTypes.Transaction{}\<close> when none was applied. When that \<^verbatim>\<open>Put\<close> fails, \<^verbatim>\<open>Commit\<close>
  returns its error and the store as it left it; otherwise the two batches are written
  to the store the \<^verbatim>\<open>Put\<close> returned.
\<close>

theorem Commit_head_pointer:
  assumes "Reset e was root = (None, was0)"
    and "applyAll e was0 calls = Some (errs, was1)"
    and "StateCommit e (ethState was1) True = (root', None, st1)"
    and "TrieDBCommit e st1 (db was1) root' True = (None, st2, d2)"
    and "Put e d2 (rootKey e) (hash_bytes root') = (None, d3)"
  shows "Commit e was1 =
           (case Put e d3 (headTxKey e)
                   (hash_bytes (Hash e (if applied calls errs = [] then emptyTransaction e
                                        else last (applied calls errs)))) of
              (Some err, d4) \<Rightarrow> ((0, Some err), was1\<lparr>ethState := st2, db := d4\<rparr>)
            | (None, d4) \<Rightarrow>
                (case pipeline e [TxWrite, ReceiptWrite]
                        (root', was1\<lparr>ethState := st2, db := d4\<rparr>) of
                   (passed, err, r, was') \<Rightarrow> ((if err = None then root' else 0, err), was')))"
proof -
  from Reset_returns_nil [OF assms(1)] have z: "totalUsedGas was0 = Some 0"
    "transactions was0 = []"
    by auto
  from applyAll_invariant [OF assms(2) z(1)] z(2)
  have t: "transactions was1 = applied calls errs"
    by simp
  have w: "writeHead e (was1\<lparr>ethState := st2, db := d3\<rparr>) =
             (case Put e d3 (headTxKey e)
                     (hash_bytes (Hash e (if applied calls errs = [] then emptyTransaction e
                                          else last (applied calls errs)))) of
                (err, d4) \<Rightarrow> (err, was1\<lparr>ethState := st2, db := d4\<rparr>))"
    by (simp add: writeHead_def t last_conv_nth split: prod.split)
  show ?thesis
    unfolding Commit_after_root_write [OF assms(3-5)] w
    by (simp split: prod.split option.split)
qed

theorem Commit_head_pointer_witness:
  "Reset demoEnv demoFresh 1 = (None, demoReset) \<and>
   applyAll demoEnv demoReset demoCalls = Some (demoErrs, demoApplied) \<and>
   applied demoCalls demoErrs = [2, 3] \<and>
   Put demoEnv demoRooted (headTxKey demoEnv) (hash_bytes (Hash demoEnv 3)) =
     (None, demoRooted @ [([2], hash_bytes 3)]) \<and>
   Commit demoEnv demoApplied = ((2, None), demoApplied\<lparr>db := demoStored\<rparr>) \<and>
   applyAll demoEnv demoReset [] = Some ([], demoReset) \<and>
   applied [] [] = ([] :: nat list) \<and>
   Put demoEnv demoEmptyRooted (headTxKey demoEnv)
       (hash_bytes (Hash demoEnv (emptyTransaction demoEnv))) =
     (None, demoEmptyRooted @ [([2], hash_bytes 0)]) \<and>
   Commit demoEnv demoReset = ((0, None), demoReset\<lparr>db := demoEmptyStored\<rparr>)"
proof -
  have c: "applied demoCalls demoErrs = [2, 3]"
    by (simp add: demoCalls_def demoErrs_def)
  have p: "Put demoEnv demoRooted (headTxKey demoEnv) (hash_bytes (Hash demoEnv 3)) =
             (None, demoRooted @ [([2], hash_bytes 3)])"
    by (simp add: demoEnv_def)
  have q: "Put demoEnv demoEmptyRooted (headTxKey demoEnv)
               (hash_bytes (Hash demoEnv (emptyTransaction demoEnv))) =
             (None, demoEmptyRooted @ [([2], hash_bytes 0)])"
    by (simp add: demoEnv_def)
  have full: "Commit demoEnv demoApplied = ((2, None), demoApplied\<lparr>db := demoStored\<rparr>)"
    using Commit_head_pointer [OF demo_Reset demo_applyAll demo_StateCommit_applied
        demo_TrieDBCommit_applied demo_Put_root_applied]
    by (simp add: c p demo_tail_applied del: pipeline.simps)
  have none: "Commit demoEnv demoReset = ((0, None), demoReset\<lparr>db := demoEmptyStored\<rparr>)"
    using Commit_head_pointer [OF demo_Reset demo_applyAll_none demo_StateCommit_reset
        demo_TrieDBCommit_reset demo_Put_root_reset]
    by (simp add: q demo_tail_reset del: pipeline.simps)
  show ?thesis
    using demo_Reset demo_applyAll demo_applyAll_none c p q full none by simp
qed

end
